theory Spec2Isabelle
  imports Main "HOL-Library.List_Lexorder" "HOL-Library.Multiset"
begin

section \<open>PointList and PointListArray of py4DSTEM\<close>

text \<open>
  A shallow embedding of \<^verbatim>\<open>src/py4DSTEM/process/datastructure/pointlist.py\<close>.
  The specification renames the classes and methods: PointTable is \<^verbatim>\<open>PointList\<close>,
  PointTableGrid is \<^verbatim>\<open>PointListArray\<close>, count is the attribute \<^verbatim>\<open>length\<close>, rows is
  \<^verbatim>\<open>data\<close>, schema is \<^verbatim>\<open>dtype\<close>, owner is \<^verbatim>\<open>parentDataCube\<close>; append_row, append_rows,
  merge, sort_by, filter, remove_rows, duplicate and get are \<^verbatim>\<open>add_point\<close>,
  \<^verbatim>\<open>add_pointarray\<close>, \<^verbatim>\<open>add_pointlist\<close>, \<^verbatim>\<open>sort\<close>, \<^verbatim>\<open>get_subpointlist\<close>, \<^verbatim>\<open>remove_points\<close>,
  \<^verbatim>\<open>copy\<close> and \<^verbatim>\<open>get_pointlist\<close>.

  A method that mutates \<^verbatim>\<open>self\<close> takes the object and returns its outcome paired with
  the object as the call leaves it, also when the call raises: that pair is what a caller
  that catches the exception observes.
\<close>

subsection \<open>Exceptions and outcomes\<close>

text \<open>
  The source raises Python's built-in exceptions: every \<^verbatim>\<open>assert\<close> raises
  \<^verbatim>\<open>AssertionError\<close>, indexing out of range raises \<^verbatim>\<open>IndexError\<close>. The error names of the
  specification (ArityMismatchError, SchemaMismatchError, ...) stand for the assertion
  or library call that fails.
\<close>

datatype error = AssertionError | IndexError | TypeError | ValueError | AttributeError

datatype 'a outcome = Returned 'a | Raised error

subsection \<open>numpy: data types, values, arrays\<close>

text \<open>
  A numpy data type is a scalar type or a structured type, an ordered list of named
  fields. Field values are modelled by integers: the rounding, the NaN and the overflow
  of numpy's machine numbers are outside the model. A value of a structured type is the
  list of its field values.
\<close>

datatype np_type = Float64 | Int64 | Struct "(string \<times> np_type) list"

datatype np_val = Num int | Rec "np_val list"

type_synonym row = "np_val list"

text \<open>
  A number, as opposed to a tuple or a record: the entries of the (n, m)-shaped array
  that the docstring of \<^verbatim>\<open>add_pointarray\<close> asks for are numbers.
\<close>

fun is_num :: "np_val \<Rightarrow> bool" where
  "is_num (Num n) = True"
| "is_num (Rec vs) = False"

text \<open>
  \<^verbatim>\<open>np.dtype(fields)\<close> for a list of (name, type) pairs: numpy refuses a field name that
  occurs twice with a \<^verbatim>\<open>ValueError\<close>.
\<close>

definition np_dtype :: "(string \<times> np_type) list \<Rightarrow> error + (string \<times> np_type) list" where
  "np_dtype fields = (if distinct (map fst fields) then Inr fields else Inl ValueError)"

text \<open>
  Storing a Python value in a field of a given type, as \<^verbatim>\<open>np.array(point, dtype=...)\<close>
  does field by field: a number is stored in a scalar field; a number stored in a
  structured field is assigned to each of its fields; a tuple or record is stored field
  by field in a structured field of the same number of fields; anything else is refused.
\<close>

function (sequential) coerce :: "np_type \<Rightarrow> np_val \<Rightarrow> np_val option" where
  "coerce Float64 (Num n) = Some (Num n)"
| "coerce Int64 (Num n) = Some (Num n)"
| "coerce Float64 (Rec vs) = None"
| "coerce Int64 (Rec vs) = None"
| "coerce (Struct fs) (Num n) =
     map_option Rec (those (map (\<lambda>f. coerce (snd f) (Num n)) fs))"
| "coerce (Struct fs) (Rec vs) =
     (if length vs = length fs
      then map_option Rec (those (map (\<lambda>fv. coerce (snd (fst fv)) (snd fv)) (zip fs vs)))
      else None)"
  by pat_completeness auto
termination
proof (relation "measure (\<lambda>(t, v). size t)")
  have field_size: "size (snd x) < size (Struct fs)" if "x \<in> set fs"
    for x :: "string \<times> np_type" and fs
    using that by (induction fs) (auto simp: size_prod_simp)
  show "wf (measure (\<lambda>(t, v). size t))" by simp
  show "((snd x, Num n), Struct fs, Num n) \<in> measure (\<lambda>(t, v). size t)"
    if "x \<in> set fs" for fs n and x :: "string \<times> np_type"
    using field_size [OF that] by simp
  show "((snd (fst x), snd x), Struct fs, Rec vs) \<in> measure (\<lambda>(t, v). size t)"
    if "length vs = length fs" "x \<in> set (zip fs vs)"
    for fs :: "(string \<times> np_type) list" and vs :: "np_val list" and x
  proof -
    from that(2) have "(fst x, snd x) \<in> set (zip fs vs)" by simp
    then have "fst x \<in> set fs" by (rule set_zip_leftD)
    from field_size [OF this] show ?thesis by simp
  qed
qed

text \<open>
  \<^verbatim>\<open>np.array(point, dtype=dt)\<close> for a tuple \<^verbatim>\<open>point\<close> with one element per field of the
  structured type \<^verbatim>\<open>dt\<close>: the row, or the \<^verbatim>\<open>ValueError\<close> of a refused element.
\<close>

definition np_array :: "np_val list \<Rightarrow> (string \<times> np_type) list \<Rightarrow> error + row" where
  "np_array point dt =
     (case those (map (\<lambda>fv. coerce (snd (fst fv)) (snd fv)) (zip dt point)) of
        None \<Rightarrow> Inl ValueError
      | Some r \<Rightarrow> Inr r)"

text \<open>
  \<^verbatim>\<open>mask.nonzero()[0]\<close>: the positions of the true entries, ascending.
\<close>

definition nonzero :: "bool list \<Rightarrow> nat list" where
  "nonzero deletemask = filter (\<lambda>i. deletemask ! i) [0..<length deletemask]"

text \<open>
  \<^verbatim>\<open>np.delete(arr, idx)\<close> for an array of indices (numpy 1.19 and later): an index
  outside the array raises \<^verbatim>\<open>IndexError\<close>; otherwise the result is a new array without
  the elements at those positions, the others in their order.
\<close>

definition np_delete :: "'a list \<Rightarrow> nat list \<Rightarrow> error + 'a list" where
  "np_delete arr idx =
     (if \<exists>i\<in>set idx. length arr \<le> i then Inl IndexError
      else Inr (map (\<lambda>i. arr ! i) (filter (\<lambda>i. i \<notin> set idx) [0..<length arr])))"

text \<open>
  \<^verbatim>\<open>np.sort(arr, order=name)\<close> on a structured array compares the named field first and
  breaks ties by the other fields in the order of the dtype; structured fields compare
  field by field. \<^verbatim>\<open>k\<close> is the position of the named field.
\<close>

fun flat :: "np_val \<Rightarrow> int list" where
  "flat (Num n) = [n]"
| "flat (Rec vs) = concat (map flat vs)"

definition order_key :: "nat \<Rightarrow> row \<Rightarrow> int list" where
  "order_key k r = concat (map flat (r ! k # take k r @ drop (Suc k) r))"

definition np_sort :: "row list \<Rightarrow> nat \<Rightarrow> row list" where
  "np_sort arr k = sort_key (order_key k) arr"

text \<open>The position of a field in \<^verbatim>\<open>dtype.names\<close>.\<close>

fun index_of :: "string \<Rightarrow> string list \<Rightarrow> nat" where
  "index_of x [] = 0"
| "index_of x (y # ys) = (if x = y then 0 else Suc (index_of x ys))"

subsection \<open>PointList\<close>

text \<open>
  An entry of the \<^verbatim>\<open>coordinates\<close> list: a string, a (name, dtype) tuple, or a value of
  another type. The parent data cube is an object with the attributes \<^verbatim>\<open>R_Nx\<close> and
  \<^verbatim>\<open>R_Ny\<close>, or \<^verbatim>\<open>None\<close>.
\<close>

datatype coord = Name string | Pair string np_type | NotCoord

record DataCube =
  R_Nx :: int
  R_Ny :: int

text \<open>
  The three attributes that both classes set. \<^verbatim>\<open>DataObject.__init__\<close>, of
  \<^verbatim>\<open>dataobject.py\<close>, is called first by both constructors with the parent and the
  keyword arguments; it is taken to return normally and to set none of the attributes
  below. The keyword arguments are passed on to it only and are left out.
\<close>

record PointBase =
  coordinates :: "coord list"
  parentDataCube :: "DataCube option"
  default_dtype :: np_type

record PointList = PointBase +
  length' :: int
  dtype :: "(string \<times> np_type) list"
  data :: "row list"

definition names :: "(string \<times> np_type) list \<Rightarrow> string list" where
  "names dt = map fst dt"

text \<open>
  Lines 41 to 46: the structured type of the array. \<^verbatim>\<open>coordinates[0]\<close> raises
  \<^verbatim>\<open>IndexError\<close> on an empty list; only the type of the first entry is tested, and
  \<^verbatim>\<open>np.dtype\<close> refuses with \<^verbatim>\<open>TypeError\<close> a list whose later entries are of another
  kind.
\<close>

fun named_field :: "np_type \<Rightarrow> coord \<Rightarrow> (string \<times> np_type) option" where
  "named_field dt (Name n) = Some (n, dt)"
| "named_field dt c = None"

fun tuple_field :: "coord \<Rightarrow> (string \<times> np_type) option" where
  "tuple_field (Pair n t) = Some (n, t)"
| "tuple_field c = None"

definition make_dtype :: "coord list \<Rightarrow> np_type \<Rightarrow> error + (string \<times> np_type) list" where
  "make_dtype cs dt =
     (case cs of
        [] \<Rightarrow> Inl IndexError
      | Name n # rest \<Rightarrow>
          (case those (map (named_field dt) cs) of
             None \<Rightarrow> Inl TypeError | Some fs \<Rightarrow> np_dtype fs)
      | Pair n t # rest \<Rightarrow>
          (case those (map tuple_field cs) of
             None \<Rightarrow> Inl TypeError | Some fs \<Rightarrow> np_dtype fs)
      | NotCoord # rest \<Rightarrow> Inl TypeError)"

definition add_point :: "PointList \<Rightarrow> np_val list \<Rightarrow> unit outcome \<times> PointList" where
  "add_point self point =
     (if length point \<noteq> length (dtype self) then (Raised AssertionError, self)
      else case np_array point (dtype self) of
             Inl e \<Rightarrow> (Raised e, self)
           | Inr r \<Rightarrow>
               (Returned (), self\<lparr>data := data self @ [r], length' := length' self + 1\<rparr>))"

text \<open>The loop of \<^verbatim>\<open>add_pointarray\<close>: an exception of \<^verbatim>\<open>add_point\<close> ends it.\<close>

fun add_points :: "PointList \<Rightarrow> np_val list list \<Rightarrow> unit outcome \<times> PointList" where
  "add_points self [] = (Returned (), self)"
| "add_points self (point # points) =
     (case add_point self point of
        (Raised e, self') \<Rightarrow> (Raised e, self')
      | (Returned u, self') \<Rightarrow> add_points self' points)"

definition add_pointarray :: "PointList \<Rightarrow> np_val list list \<Rightarrow> unit outcome \<times> PointList" where
  "add_pointarray self pointarray =
     (case pointarray of
        [] \<Rightarrow> (Raised IndexError, self)
      | first # rest \<Rightarrow>
          if length first \<noteq> length (dtype self) then (Raised AssertionError, self)
          else add_points self pointarray)"

definition PointList_init ::
  "coord list \<Rightarrow> DataCube option \<Rightarrow> np_val list list option \<Rightarrow> np_type \<Rightarrow> PointList outcome" where
  "PointList_init cs parent d dt =
     (case make_dtype cs dt of
        Inl e \<Rightarrow> Raised e
      | Inr sdt \<Rightarrow>
          (let self = \<lparr>coordinates = cs, parentDataCube = parent, default_dtype = dt,
                       length' = 0, dtype = sdt, data = []\<rparr>
           in case d of
                None \<Rightarrow> Returned self
              | Some pointarray \<Rightarrow>
                  (case add_pointarray self pointarray of
                     (Raised e, self') \<Rightarrow> Raised e
                   | (Returned u, self') \<Rightarrow> Returned self')))"

definition add_pointlist :: "PointList \<Rightarrow> PointList \<Rightarrow> unit outcome \<times> PointList" where
  "add_pointlist self pointlist =
     (if dtype self \<noteq> dtype pointlist then (Raised AssertionError, self)
      else (Returned (),
            self\<lparr>data := data self @ data pointlist,
                 length' := length' self + length' pointlist\<rparr>))"

text \<open>
  Objects are passed by reference: \<^verbatim>\<open>a.add_pointlist(b)\<close> on a store of PointList
  objects, where \<^verbatim>\<open>a\<close> and \<^verbatim>\<open>b\<close> are addresses, assigns to the attributes of the object
  at \<^verbatim>\<open>a\<close> only.
\<close>

type_synonym store = "nat \<Rightarrow> PointList"

definition add_pointlist_at :: "store \<Rightarrow> nat \<Rightarrow> nat \<Rightarrow> unit outcome \<times> store" where
  "add_pointlist_at h a b =
     (case add_pointlist (h a) (h b) of (r, self') \<Rightarrow> (r, h(a := self')))"

definition sort' :: "PointList \<Rightarrow> string \<Rightarrow> string \<Rightarrow> unit outcome \<times> PointList" where
  "sort' self coordinate order =
     (if coordinate \<notin> set (names (dtype self)) then (Raised AssertionError, self)
      else if \<not> (order = ''descending'' \<or> order = ''ascending'')
           then (Raised AssertionError, self)
      else if order = ''ascending''
           then (Returned (),
                 self\<lparr>data := np_sort (data self) (index_of coordinate (names (dtype self)))\<rparr>)
      else (Returned (),
            self\<lparr>data := rev (np_sort (data self) (index_of coordinate (names (dtype self))))\<rparr>))"

definition remove_points :: "PointList \<Rightarrow> bool list \<Rightarrow> unit outcome \<times> PointList" where
  "remove_points self deletemask =
     (case np_delete (data self) (nonzero deletemask) of
        Inl e \<Rightarrow> (Raised e, self)
      | Inr d \<Rightarrow>
          (Returned (),
           self\<lparr>data := d, length' := length' self - int (length (nonzero deletemask))\<rparr>))"

text \<open>
  \<^verbatim>\<open>copy\<close> passes \<^verbatim>\<open>dtype=self.dtype\<close>, the structured type of the array, as the default
  type of the new object, and the rows of \<^verbatim>\<open>np.copy(self.data)\<close> as its data.
\<close>

definition copy :: "PointList \<Rightarrow> PointList outcome" where
  "copy self =
     PointList_init (coordinates self) (parentDataCube self) (Some (data self))
       (Struct (dtype self))"

text \<open>
  An entry of \<^verbatim>\<open>coords_vals\<close> is a tuple that starts with a field name: the name and the
  list of the entries after it, so that \<^verbatim>\<open>len(tup)\<close> is one more than the length of that
  list. \<^verbatim>\<open>self.data[name]\<close> is the column of the field. On a column of a scalar type the
  comparisons are elementwise. On a column of a structured type, \<^verbatim>\<open>!=\<close> with a number
  holds everywhere and \<^verbatim>\<open><\<close> raises \<^verbatim>\<open>TypeError\<close>.
\<close>

type_synonym tup = "string \<times> int list"

definition column :: "PointList \<Rightarrow> string \<Rightarrow> np_val list" where
  "column self name = map (\<lambda>r. r ! index_of name (names (dtype self))) (data self)"

definition field_type :: "PointList \<Rightarrow> string \<Rightarrow> np_type" where
  "field_type self name = snd (dtype self ! index_of name (names (dtype self)))"

fun is_struct :: "np_type \<Rightarrow> bool" where
  "is_struct (Struct fs) = True"
| "is_struct t = False"

fun ne_val :: "int \<Rightarrow> np_val \<Rightarrow> bool" where
  "ne_val val (Num n) = (n \<noteq> val)"
| "ne_val val (Rec vs) = True"

fun lt_val :: "int \<Rightarrow> np_val \<Rightarrow> bool" where
  "lt_val minval (Num n) = (n < minval)"
| "lt_val minval (Rec vs) = False"

fun ge_val :: "int \<Rightarrow> np_val \<Rightarrow> bool" where
  "ge_val maxval (Num n) = (n \<ge> maxval)"
| "ge_val maxval (Rec vs) = False"

definition array_or :: "bool list \<Rightarrow> bool list \<Rightarrow> bool list" where
  "array_or xs ys = map (\<lambda>p. fst p \<or> snd p) (zip xs ys)"

text \<open>One pass of the loop body, lines 101 to 108.\<close>

definition mask_step :: "PointList \<Rightarrow> bool list \<Rightarrow> tup \<Rightarrow> error + bool list" where
  "mask_step self deletemask tup =
     (case tup of (name, vals) \<Rightarrow>
        if \<not> (length vals = 1 \<or> length vals = 2) then Inl AssertionError
        else if name \<notin> set (names (dtype self)) then Inl AssertionError
        else if length vals = 1
             then Inr (array_or deletemask (map (ne_val (vals ! 0)) (column self name)))
        else if is_struct (field_type self name) then Inl TypeError
        else Inr (array_or
                    (array_or deletemask (map (lt_val (vals ! 0)) (column self name)))
                    (map (ge_val (vals ! 1)) (column self name))))"

fun mask_loop :: "PointList \<Rightarrow> bool list \<Rightarrow> tup list \<Rightarrow> error + bool list" where
  "mask_loop self deletemask [] = Inr deletemask"
| "mask_loop self deletemask (tup # tups) =
     (case mask_step self deletemask tup of
        Inl e \<Rightarrow> Inl e
      | Inr deletemask' \<Rightarrow> mask_loop self deletemask' tups)"

definition get_subpointlist :: "PointList \<Rightarrow> tup list \<Rightarrow> PointList outcome" where
  "get_subpointlist self coords_vals =
     (case mask_loop self (replicate (length (data self)) False) coords_vals of
        Inl e \<Rightarrow> Raised e
      | Inr deletemask \<Rightarrow>
          (case copy self of
             Raised e \<Rightarrow> Raised e
           | Returned new_pointlist \<Rightarrow>
               (case remove_points new_pointlist deletemask of
                  (Raised e, p) \<Rightarrow> Raised e
                | (Returned u, p) \<Rightarrow> Returned p)))"

subsection \<open>PointListArray\<close>

text \<open>
  The \<^verbatim>\<open>shape\<close> argument: \<^verbatim>\<open>None\<close>, a tuple, or a value that is not a tuple. An entry of
  the tuple is an integer or a value of another type.
\<close>

datatype py_num = PInt int | NonInt


record PointListArray = PointBase +
  shape :: "py_num \<times> py_num"
  pointlists :: "PointList list list"


text \<open>A list comprehension over a range: the element expression evaluated n times.\<close>

fun comprehension :: "nat \<Rightarrow> 'a outcome \<Rightarrow> 'a list outcome" where
  "comprehension 0 c = Returned []"
| "comprehension (Suc n) c =
     (case c of
        Raised e \<Rightarrow> Raised e
      | Returned x \<Rightarrow>
          (case comprehension n c of
             Raised e \<Rightarrow> Raised e
           | Returned xs \<Rightarrow> Returned (x # xs)))"



text \<open>
  Indexing a Python list: a negative index counts from the end; an index outside the
  list raises \<^verbatim>\<open>IndexError\<close>.
\<close>

definition py_index :: "'a list \<Rightarrow> int \<Rightarrow> error + 'a" where
  "py_index xs i =
     (let n = int (length xs); k = (if i < 0 then n + i else i)
      in if 0 \<le> k \<and> k < n then Inr (xs ! nat k) else Inl IndexError)"

definition get_pointlist :: "PointListArray \<Rightarrow> int \<Rightarrow> int \<Rightarrow> PointList outcome" where
  "get_pointlist self i j =
     (case py_index (pointlists self) i of
        Inl e \<Rightarrow> Raised e
      | Inr r \<Rightarrow> (case py_index r j of Inl e \<Rightarrow> Raised e | Inr p \<Rightarrow> Returned p))"

subsection \<open>The invariant and example objects\<close>

text \<open>The attribute \<^verbatim>\<open>length\<close> is the number of rows of \<^verbatim>\<open>data\<close>.\<close>

definition pl_inv :: "PointList \<Rightarrow> bool" where
  "pl_inv t \<longleftrightarrow> length' t = int (length (data t))"

text \<open>\<^verbatim>\<open>PointList([('x', int)], None, data=[(7,), (8,)])\<close>\<close>

definition two_rows :: PointList where
  "two_rows =
     \<lparr>coordinates = [Pair ''x'' Int64], parentDataCube = None, default_dtype = Float64,
      length' = 2, dtype = [(''x'', Int64)], data = [[Num 7], [Num 8]]\<rparr>"

text \<open>\<^verbatim>\<open>PointList([('x', int)], None)\<close>\<close>

definition no_rows :: PointList where
  "no_rows =
     \<lparr>coordinates = [Pair ''x'' Int64], parentDataCube = None, default_dtype = Float64,
      length' = 0, dtype = [(''x'', Int64)], data = []\<rparr>"

text \<open>
  A grid of shape (2, 1), as \<^verbatim>\<open>PointListArray([('x', int)], None, shape=(2, 1))\<close>
  makes it, after the two rows of \<^verbatim>\<open>two_rows\<close> were added to the cell (1, 0).
\<close>

definition grid_2x1 :: PointListArray where
  "grid_2x1 =
     \<lparr>coordinates = [Pair ''x'' Int64], parentDataCube = None, default_dtype = Float64,
      shape = (PInt 2, PInt 1), pointlists = [[no_rows], [two_rows]]\<rparr>"

text \<open>A grid of shape (R, C): R rows of C cells.\<close>

definition grid_inv :: "PointListArray \<Rightarrow> nat \<Rightarrow> nat \<Rightarrow> bool" where
  "grid_inv g R C \<longleftrightarrow>
     shape g = (PInt (int R), PInt (int C)) \<and> length (pointlists g) = R \<and>
     list_all (\<lambda>r. length r = C) (pointlists g)"

text \<open>
  \<^verbatim>\<open>PointList([('x', int), ('y', int)], None, data=[(1, 2), (3, 4), (1, 5)])\<close>, the
  example of the specification.
\<close>

definition three_rows :: PointList where
  "three_rows =
     \<lparr>coordinates = [Pair ''x'' Int64, Pair ''y'' Int64], parentDataCube = None,
      default_dtype = Float64, length' = 3, dtype = [(''x'', Int64), (''y'', Int64)],
      data = [[Num 1, Num 2], [Num 3, Num 4], [Num 1, Num 5]]\<rparr>"


text \<open>\<^verbatim>\<open>PointList(['x'], None, data=[(7,)])\<close>, with the default \<^verbatim>\<open>dtype=float\<close>.\<close>

definition named_row :: PointList where
  "named_row =
     \<lparr>coordinates = [Name ''x''], parentDataCube = None, default_dtype = Float64,
      length' = 1, dtype = [(''x'', Float64)], data = [[Num 7]]\<rparr>"

text \<open>
  The constraints as the specification words them: (field, v) holds of a row when the
  field equals v, (field, lo, hi) when lo \<le> field < hi; a row is kept when every
  constraint holds of it.
\<close>

fun holds_val :: "int list \<Rightarrow> np_val \<Rightarrow> bool" where
  "holds_val [v] (Num n) = (n = v)"
| "holds_val [lo, hi] (Num n) = (lo \<le> n \<and> n < hi)"
| "holds_val vs x = False"

definition keeps :: "PointList \<Rightarrow> tup list \<Rightarrow> row \<Rightarrow> bool" where
  "keeps t preds r \<longleftrightarrow>
     list_all (\<lambda>p. holds_val (snd p) (r ! index_of (fst p) (names (dtype t)))) preds"

text \<open>
  A table made from (name, dtype) tuples of scalar types with distinct names, whose rows
  hold one number per field; and a list of constraints of length 2 or 3 on its fields.
\<close>

definition tuple_table :: "PointList \<Rightarrow> bool" where
  "tuple_table t \<longleftrightarrow>
     coordinates t = map (\<lambda>f. Pair (fst f) (snd f)) (dtype t) \<and>
     dtype t \<noteq> [] \<and> distinct (names (dtype t)) \<and>
     list_all (\<lambda>f. \<not> is_struct (snd f)) (dtype t) \<and>
     list_all (\<lambda>r. length r = length (dtype t) \<and> list_all is_num r) (data t)"

definition known_fields :: "PointList \<Rightarrow> tup list \<Rightarrow> bool" where
  "known_fields t preds \<longleftrightarrow>
     list_all (\<lambda>p. fst p \<in> set (names (dtype t)) \<and> (length (snd p) = 1 \<or> length (snd p) = 2))
       preds"

section \<open>Properties\<close>

subsection \<open>numpy helpers\<close>

lemma zip_upt_nth: "zip xs [0..<length xs] = map (\<lambda>i. (xs ! i, i)) [0..<length xs]"
  by (rule nth_equalityI) simp_all

lemma nths_filter_upt: "nths xs A = map (\<lambda>i. xs ! i) (filter (\<lambda>i. i \<in> A) [0..<length xs])"
  by (simp add: nths_def zip_upt_nth filter_map comp_def)

lemma set_nonzero: "set (nonzero m) = {i. i < length m \<and> m ! i}"
  by (auto simp: nonzero_def)

lemma length_nonzero: "length (nonzero m) = length (filter (\<lambda>b. b) m)"
proof -
  have "filter (\<lambda>b. b) m = filter (\<lambda>b. b) (map (\<lambda>i. m ! i) [0..<length m])"
    by (simp add: map_nth)
  also have "\<dots> = map (\<lambda>i. m ! i) (nonzero m)"
    by (simp add: filter_map comp_def nonzero_def)
  finally show ?thesis by simp
qed

lemma np_delete_nonzero:
  "np_delete arr (nonzero m) =
     (if \<forall>i<length m. m ! i \<longrightarrow> i < length arr
      then Inr (nths arr {i. \<not> (i < length m \<and> m ! i)})
      else Inl IndexError)"
  by (auto simp: np_delete_def set_nonzero nths_filter_upt not_le
      intro!: arg_cong2 [where f = map] filter_cong)

subsection \<open>remove_points\<close>

text \<open>
  C1 (as amended). \<^verbatim>\<open>remove_points\<close> makes no check of the length of the mask. For every
  table and every mask whose true positions are all below the number of rows, as they
  are whenever the mask is no longer than the table and so when the lengths agree, it
  returns, keeps exactly the rows at positions that are not true in the mask, in their
  order, and lowers \<^verbatim>\<open>length\<close> by the number of true entries. A mask with a true entry
  at or beyond the number of rows makes \<^verbatim>\<open>np.delete\<close> raise \<^verbatim>\<open>IndexError\<close>, and the
  table is unchanged.
\<close>

theorem remove_points_by_position:
  "((\<forall>i<length m. m ! i \<longrightarrow> i < length (data t)) \<longrightarrow>
      remove_points t m =
        (Returned (),
         t\<lparr>data := nths (data t) {i. \<not> (i < length m \<and> m ! i)},
           length' := length' t - int (length (filter (\<lambda>b. b) m))\<rparr>)) \<and>
   (length m \<le> length (data t) \<longrightarrow>
      remove_points t m =
        (Returned (),
         t\<lparr>data := nths (data t) {i. \<not> (i < length m \<and> m ! i)},
           length' := length' t - int (length (filter (\<lambda>b. b) m))\<rparr>)) \<and>
   ((\<exists>i<length m. m ! i \<and> length (data t) \<le> i) \<longrightarrow>
      remove_points t m = (Raised IndexError, t))"
  by (auto simp: remove_points_def np_delete_nonzero length_nonzero)

text \<open>
  A mask of length 1 on a table of 2 rows: the call returns and deletes the first row.
\<close>

theorem short_mask_counterexample:
  "length [True] \<noteq> length (data two_rows) \<and>
   remove_points two_rows [True] =
     (Returned (), two_rows\<lparr>data := [[Num 8]], length' := 1\<rparr>)"
  by (simp add: two_rows_def remove_points_def np_delete_def nonzero_def)

theorem remove_points_by_position_witness:
  "length [False, True] \<le> length (data two_rows) \<and>
   remove_points two_rows [False, True] =
     (Returned (), two_rows\<lparr>data := [[Num 7]], length' := 1\<rparr>) \<and>
   remove_points two_rows [False, False, True] = (Raised IndexError, two_rows)"
proof -
  have a: "length [False, True] \<le> length (data two_rows)"
    by (simp add: two_rows_def)
  have b: "\<exists>i<length [False, False, True].
             [False, False, True] ! i \<and> length (data two_rows) \<le> i"
    by (rule exI [of _ 2]) (simp add: two_rows_def)
  have c: "nths (data two_rows) {i. \<not> (i < length [False, True] \<and> [False, True] ! i)}
             = [[Num 7]]"
    by (simp add: two_rows_def nths_Cons less_Suc_eq_0_disj)
  from remove_points_by_position [of "[False, True]" two_rows]
    remove_points_by_position [of "[False, False, True]" two_rows] a b c
  show ?thesis by (simp add: two_rows_def)
qed

subsection \<open>The empty batch\<close>

text \<open>
  C10. \<^verbatim>\<open>add_pointarray\<close> on an empty sequence raises, at \<^verbatim>\<open>pointarray[0]\<close>, and leaves
  the table as it was; so the constructor raises when it is given an empty sequence as
  data (with the error of the coordinates if they are refused first, with \<^verbatim>\<open>IndexError\<close>
  otherwise); without data, and with coordinates that make a dtype, it returns a table
  with no rows and \<^verbatim>\<open>length\<close> 0.
\<close>

theorem empty_batch_fails:
  "add_pointarray t [] = (Raised IndexError, t) \<and>
   PointList_init cs parent (Some []) dt =
     Raised (case make_dtype cs dt of Inl e \<Rightarrow> e | Inr sdt \<Rightarrow> IndexError) \<and>
   (\<forall>sdt. make_dtype cs dt = Inr sdt \<longrightarrow>
      PointList_init cs parent None dt =
        Returned \<lparr>coordinates = cs, parentDataCube = parent, default_dtype = dt,
                  length' = 0, dtype = sdt, data = []\<rparr>)"
  by (simp add: add_pointarray_def PointList_init_def split: sum.splits)

theorem empty_batch_fails_witness:
  "make_dtype [Name ''x'', Name ''y''] Float64 = Inr [(''x'', Float64), (''y'', Float64)] \<and>
   PointList_init [Name ''x'', Name ''y''] None None Float64 =
     Returned \<lparr>coordinates = [Name ''x'', Name ''y''], parentDataCube = None,
               default_dtype = Float64, length' = 0,
               dtype = [(''x'', Float64), (''y'', Float64)], data = []\<rparr> \<and>
   PointList_init [Name ''x'', Name ''y''] None (Some []) Float64 = Raised IndexError"
proof -
  have d: "make_dtype [Name ''x'', Name ''y''] Float64
             = Inr [(''x'', Float64), (''y'', Float64)]"
    by (simp add: make_dtype_def np_dtype_def)
  from empty_batch_fails [of _ "[Name ''x'', Name ''y'']" None Float64] d
  show ?thesis by simp
qed

subsection \<open>get_pointlist\<close>

lemma py_index_eq:
  "py_index xs i =
     (if - int (length xs) \<le> i \<and> i < int (length xs)
      then Inr (xs ! nat (i mod int (length xs))) else Inl IndexError)"
proof (cases "i < 0")
  case True
  have "i mod int (length xs) = int (length xs) + i"
    if "- int (length xs) \<le> i"
  proof -
    have "i mod int (length xs) = (int (length xs) + i) mod int (length xs)"
      by simp
    also from that True have "\<dots> = int (length xs) + i"
      by (intro mod_pos_pos_trivial) simp_all
    finally show ?thesis .
  qed
  with True show ?thesis
    by (auto simp: py_index_def Let_def)
next
  case False
  then show ?thesis by (auto simp: py_index_def Let_def)
qed

text \<open>
  C2 (as amended). On a grid of R rows of C cells, \<^verbatim>\<open>get_pointlist(i, j)\<close> returns the
  table of the cell (i, j) for every i in [0, R) and j in [0, C). The lists are indexed
  as Python indexes them, so a negative index counts from the end: for every i in
  [-R, R) and j in [-C, C) the call returns the table of the cell (i mod R, j mod C).
  For every other pair it raises \<^verbatim>\<open>IndexError\<close>.
\<close>

theorem get_pointlist_wraps:
  assumes "grid_inv g R C"
  shows "(0 \<le> i \<and> i < int R \<and> 0 \<le> j \<and> j < int C \<longrightarrow>
            get_pointlist g i j = Returned (pointlists g ! nat i ! nat j)) \<and>
         get_pointlist g i j =
           (if - int R \<le> i \<and> i < int R \<and> - int C \<le> j \<and> j < int C
            then Returned (pointlists g ! nat (i mod int R) ! nat (j mod int C))
            else Raised IndexError)"
proof -
  have wraps: "get_pointlist g i j =
     (if - int R \<le> i \<and> i < int R \<and> - int C \<le> j \<and> j < int C
      then Returned (pointlists g ! nat (i mod int R) ! nat (j mod int C))
      else Raised IndexError)"
  proof (cases "- int R \<le> i \<and> i < int R")
    case True
    with assms have "nat (i mod int R) < length (pointlists g)"
      by (auto simp: grid_inv_def nat_less_iff)
    with assms have "length (pointlists g ! nat (i mod int R)) = C"
      by (simp add: grid_inv_def list_all_length)
    with True assms show ?thesis
      by (simp add: get_pointlist_def py_index_eq grid_inv_def)
  next
    case False
    with assms show ?thesis
      by (auto simp: get_pointlist_def py_index_eq grid_inv_def)
  qed
  then show ?thesis by simp
qed

text \<open>Row -1 of a grid of two rows is its last row: no failure.\<close>

theorem negative_index_counterexample:
  "grid_inv grid_2x1 2 1 \<and> (-1::int) < 0 \<and> get_pointlist grid_2x1 (-1) 0 = Returned two_rows"
  by (simp add: grid_inv_def grid_2x1_def get_pointlist_def py_index_def)

theorem get_pointlist_wraps_witness:
  "grid_inv grid_2x1 2 1 \<and>
   get_pointlist grid_2x1 1 0 = Returned two_rows \<and>
   get_pointlist grid_2x1 (-2) (-1) = Returned no_rows \<and>
   get_pointlist grid_2x1 2 0 = Raised IndexError \<and>
   get_pointlist grid_2x1 0 1 = Raised IndexError \<and>
   get_pointlist grid_2x1 (-3) 0 = Raised IndexError"
proof -
  have g: "grid_inv grid_2x1 2 1"
    by (simp add: grid_inv_def grid_2x1_def)
  show ?thesis
    using g get_pointlist_wraps [OF g, of 1 0] get_pointlist_wraps [OF g, of "-2" "-1"]
      get_pointlist_wraps [OF g, of 2 0] get_pointlist_wraps [OF g, of 0 1]
      get_pointlist_wraps [OF g, of "-3" 0]
    by (simp add: grid_2x1_def)
qed

subsection \<open>The constructor of PointListArray\<close>


lemma comprehension_Raised: "comprehension (Suc k) (Raised e) = Raised e"
  by simp




subsection \<open>add_pointarray\<close>




lemma add_point_dtype: "dtype (snd (add_point t p)) = dtype t"
  by (simp add: add_point_def split: sum.splits)







subsection \<open>sort\<close>

lemma np_sort_idem: "np_sort (np_sort arr k) k = np_sort arr k"
  by (simp add: np_sort_def sort_key_id_if_sorted)

lemma np_sort_sorted: "sorted (map (order_key k) (np_sort arr k))"
  by (simp add: np_sort_def)

lemma np_sort_mset: "mset (np_sort arr k) = mset arr"
  by (simp add: np_sort_def)

text \<open>
  C5. For every table and every field of its dtype, both orders return, and the rows
  after sorting in descending order are the rows after sorting the same table in
  ascending order, reversed: position by position, so also within a group of rows with
  equal values of the field. The same holds when the table is first sorted in ascending
  order and then in descending order.
\<close>

theorem sort_descending_reverses_ascending:
  assumes "f \<in> set (names (dtype t))"
  shows "fst (sort' t f ''ascending'') = Returned () \<and>
         fst (sort' t f ''descending'') = Returned () \<and>
         data (snd (sort' t f ''descending'')) = rev (data (snd (sort' t f ''ascending''))) \<and>
         sort' (snd (sort' t f ''ascending'')) f ''descending'' = sort' t f ''descending''"
  using assms by (simp add: sort'_def np_sort_idem)

theorem sort_descending_reverses_ascending_witness:
  "''x'' \<in> set (names (dtype three_rows)) \<and>
   data (snd (sort' three_rows ''x'' ''ascending'')) = [[Num 1, Num 2], [Num 1, Num 5], [Num 3, Num 4]] \<and>
   data (snd (sort' three_rows ''x'' ''descending'')) = [[Num 3, Num 4], [Num 1, Num 5], [Num 1, Num 2]]"
proof -
  have a: "''x'' \<in> set (names (dtype three_rows))"
    by (simp add: three_rows_def names_def)
  have b: "data (snd (sort' three_rows ''x'' ''ascending''))
             = [[Num 1, Num 2], [Num 1, Num 5], [Num 3, Num 4]]"
    by (simp add: three_rows_def names_def sort'_def np_sort_def order_key_def)
  from sort_descending_reverses_ascending [OF a] a b show ?thesis by simp
qed

subsection \<open>add_pointlist\<close>



text \<open>Merging a table into itself doubles it.\<close>

lemma add_pointlist_self:
  "add_pointlist_at h a a =
     (Returned (),
      h(a := (h a)\<lparr>data := data (h a) @ data (h a), length' := 2 * length' (h a)\<rparr>))"
  by (simp add: add_pointlist_at_def add_pointlist_def)


subsection \<open>The invariant\<close>

lemma add_point_inv: "pl_inv t \<Longrightarrow> pl_inv (snd (add_point t p))"
  by (simp add: add_point_def pl_inv_def split: sum.splits)

lemma add_points_inv: "pl_inv t \<Longrightarrow> pl_inv (snd (add_points t ps))"
proof (induction ps arbitrary: t)
  case Nil
  then show ?case by simp
next
  case (Cons p ps)
  obtain r t1 where a: "add_point t p = (r, t1)" by (cases "add_point t p")
  with add_point_inv [OF Cons.prems, of p] have "pl_inv t1" by simp
  with Cons.IH [of t1] a show ?case by (cases r) simp_all
qed

lemma add_pointarray_inv: "pl_inv t \<Longrightarrow> pl_inv (snd (add_pointarray t ps))"
  by (simp add: add_pointarray_def add_points_inv split: list.splits)

lemma PointList_init_inv:
  assumes "PointList_init cs parent d dt = Returned s"
  shows "pl_inv s"
proof -
  from assms obtain sdt where sdt: "make_dtype cs dt = Inr sdt"
    by (cases "make_dtype cs dt") (simp_all add: PointList_init_def)
  let ?self = "\<lparr>coordinates = cs, parentDataCube = parent, default_dtype = dt,
                 length' = 0, dtype = sdt, data = []\<rparr>"
  have e: "pl_inv ?self" by (simp add: pl_inv_def)
  show ?thesis
  proof (cases d)
    case None
    with assms sdt e show ?thesis by (simp add: PointList_init_def)
  next
    case (Some pointarray)
    with assms sdt have "add_pointarray ?self pointarray = (Returned (), s)"
      by (auto simp: PointList_init_def split: prod.splits outcome.splits)
    with add_pointarray_inv [OF e, of pointarray] show ?thesis by simp
  qed
qed

lemma add_pointlist_inv: "pl_inv t \<Longrightarrow> pl_inv u \<Longrightarrow> pl_inv (snd (add_pointlist t u))"
  by (simp add: add_pointlist_def pl_inv_def)

lemma sort'_inv: "pl_inv t \<Longrightarrow> pl_inv (snd (sort' t f ord))"
  by (simp add: sort'_def pl_inv_def np_sort_def)

lemma distinct_nonzero: "distinct (nonzero m)"
  by (simp add: nonzero_def)

lemma length_np_delete:
  assumes "np_delete arr idx = Inr d" "distinct idx"
  shows "int (length d) = int (length arr) - int (length idx)"
proof -
  from assms(1) have sub: "set idx \<subseteq> {0..<length arr}" and
    d: "d = map (\<lambda>i. arr ! i) (filter (\<lambda>i. i \<notin> set idx) [0..<length arr])"
    by (auto simp: np_delete_def not_le split: if_splits)
  have "{i. i < length arr \<and> [0..<length arr] ! i \<notin> set idx} = {0..<length arr} - set idx"
    by auto
  then have "length d = card ({0..<length arr} - set idx)"
    unfolding d by (simp add: length_filter_conv_card)
  also from sub have "\<dots> = length arr - card (set idx)"
    by (simp add: card_Diff_subset)
  also from assms(2) have "\<dots> = length arr - length idx"
    by (simp add: distinct_card)
  finally have "length d = length arr - length idx" .
  moreover have "length idx \<le> length arr"
  proof -
    from sub have "card (set idx) \<le> card {0..<length arr}"
      by (intro card_mono) simp_all
    with assms(2) show ?thesis by (simp add: distinct_card)
  qed
  ultimately show ?thesis by simp
qed

lemma remove_points_inv: "pl_inv t \<Longrightarrow> pl_inv (snd (remove_points t m))"
  by (auto simp: remove_points_def pl_inv_def split: sum.splits
      dest!: length_np_delete [OF _ distinct_nonzero])

lemma copy_inv: "copy t = Returned s \<Longrightarrow> pl_inv s"
  unfolding copy_def by (rule PointList_init_inv)

lemma get_subpointlist_inv:
  assumes "get_subpointlist t cvs = Returned s"
  shows "pl_inv s"
proof -
  from assms obtain m c where c: "copy t = Returned c"
    and s: "remove_points c m = (Returned (), s)"
    by (auto simp: get_subpointlist_def split: sum.splits outcome.splits prod.splits)
  from copy_inv [OF c] remove_points_inv [of c m] s show ?thesis by simp
qed

text \<open>
  C8. \<^verbatim>\<open>length\<close> is the number of rows of \<^verbatim>\<open>data\<close> in every table that the constructor
  returns, and in the table as each of \<^verbatim>\<open>add_point\<close>, \<^verbatim>\<open>add_pointarray\<close>,
  \<^verbatim>\<open>add_pointlist\<close>, \<^verbatim>\<open>sort\<close> and \<^verbatim>\<open>remove_points\<close> (with a mask of the length of the
  table) leaves it, when it held before, whether the call returns or raises; and in
  every table that \<^verbatim>\<open>get_subpointlist\<close> or \<^verbatim>\<open>copy\<close> returns.
\<close>

theorem length_counts_rows:
  "(\<forall>s. PointList_init cs parent d dt = Returned s \<longrightarrow> pl_inv s) \<and>
   (pl_inv t \<longrightarrow> pl_inv (snd (add_point t p))) \<and>
   (pl_inv t \<longrightarrow> pl_inv (snd (add_pointarray t ps))) \<and>
   (pl_inv t \<and> pl_inv u \<longrightarrow> pl_inv (snd (add_pointlist t u))) \<and>
   (pl_inv t \<longrightarrow> pl_inv (snd (sort' t f ord))) \<and>
   (pl_inv t \<longrightarrow> (\<forall>s. get_subpointlist t cvs = Returned s \<longrightarrow> pl_inv s)) \<and>
   (pl_inv t \<and> length m = length (data t) \<longrightarrow> pl_inv (snd (remove_points t m))) \<and>
   (pl_inv t \<longrightarrow> (\<forall>s. copy t = Returned s \<longrightarrow> pl_inv s))"
proof -
  have init: "\<forall>s. PointList_init cs parent d dt = Returned s \<longrightarrow> pl_inv s"
    by (blast intro: PointList_init_inv)
  have point: "pl_inv t \<longrightarrow> pl_inv (snd (add_point t p))"
    by (blast intro: add_point_inv)
  have array: "pl_inv t \<longrightarrow> pl_inv (snd (add_pointarray t ps))"
    by (blast intro: add_pointarray_inv)
  have merge: "pl_inv t \<and> pl_inv u \<longrightarrow> pl_inv (snd (add_pointlist t u))"
    by (blast intro: add_pointlist_inv)
  have sort: "pl_inv t \<longrightarrow> pl_inv (snd (sort' t f ord))"
    by (blast intro: sort'_inv)
  have sub: "pl_inv t \<longrightarrow> (\<forall>s. get_subpointlist t cvs = Returned s \<longrightarrow> pl_inv s)"
    by (blast intro: get_subpointlist_inv)
  have remove: "pl_inv t \<and> length m = length (data t) \<longrightarrow> pl_inv (snd (remove_points t m))"
    by (blast intro: remove_points_inv)
  have dup: "pl_inv t \<longrightarrow> (\<forall>s. copy t = Returned s \<longrightarrow> pl_inv s)"
    by (blast intro: copy_inv)
  from init point array merge sort sub remove dup show ?thesis
    by (intro conjI)
qed

theorem length_counts_rows_witness:
  "pl_inv two_rows \<and> pl_inv no_rows \<and>
   PointList_init [Pair ''x'' Int64] None (Some [[Num 7], [Num 8]]) Float64 = Returned two_rows \<and>
   pl_inv (snd (add_point two_rows [Num 9])) \<and>
   pl_inv (snd (add_pointarray two_rows [[Num 9]])) \<and>
   pl_inv (snd (add_pointlist no_rows two_rows)) \<and>
   pl_inv (snd (sort' two_rows ''x'' ''descending'')) \<and>
   get_subpointlist two_rows [(''x'', [7])] =
     Returned (two_rows\<lparr>default_dtype := Struct [(''x'', Int64)], data := [[Num 7]], length' := 1\<rparr>) \<and>
   pl_inv (two_rows\<lparr>default_dtype := Struct [(''x'', Int64)], data := [[Num 7]], length' := 1\<rparr>) \<and>
   length [True, False] = length (data two_rows) \<and>
   pl_inv (snd (remove_points two_rows [True, False])) \<and>
   copy two_rows = Returned (two_rows\<lparr>default_dtype := Struct [(''x'', Int64)]\<rparr>) \<and>
   pl_inv (two_rows\<lparr>default_dtype := Struct [(''x'', Int64)]\<rparr>)"
proof -
  have i: "pl_inv two_rows" "pl_inv no_rows"
    by (simp_all add: pl_inv_def two_rows_def no_rows_def)
  have c: "PointList_init [Pair ''x'' Int64] None (Some [[Num 7], [Num 8]]) Float64
             = Returned two_rows"
    by (simp add: PointList_init_def make_dtype_def np_dtype_def add_pointarray_def
        add_point_def np_array_def two_rows_def)
  have d: "copy two_rows = Returned (two_rows\<lparr>default_dtype := Struct [(''x'', Int64)]\<rparr>)"
    by (simp add: copy_def PointList_init_def make_dtype_def np_dtype_def add_pointarray_def
        add_point_def np_array_def two_rows_def)
  have m: "mask_loop two_rows (replicate (length (data two_rows)) False) [(''x'', [7])]
             = Inr [False, True]"
    by (simp add: mask_step_def names_def column_def array_or_def two_rows_def
        numeral_2_eq_2)
  have r: "remove_points (two_rows\<lparr>default_dtype := Struct [(''x'', Int64)]\<rparr>) [False, True]
             = (Returned (), two_rows\<lparr>default_dtype := Struct [(''x'', Int64)],
                  data := [[Num 7]], length' := 1\<rparr>)"
    by (simp add: remove_points_def np_delete_def nonzero_def two_rows_def)
  have f: "get_subpointlist two_rows [(''x'', [7])] =
     Returned (two_rows\<lparr>default_dtype := Struct [(''x'', Int64)], data := [[Num 7]], length' := 1\<rparr>)"
    unfolding get_subpointlist_def m by (simp add: d r)
  have l: "length [True, False] = length (data two_rows)"
    by (simp add: two_rows_def)
  note T = length_counts_rows [of "[Pair ''x'' Int64]" None "Some [[Num 7], [Num 8]]" Float64
      two_rows "[Num 9]" "[[Num 9]]" no_rows "''x''" "''descending''" "[(''x'', [7])]"
      "[True, False]"]
  note U = length_counts_rows [where t = no_rows and u = two_rows]
  from T i have p: "pl_inv (snd (add_point two_rows [Num 9]))" by blast
  from T i have a: "pl_inv (snd (add_pointarray two_rows [[Num 9]]))" by blast
  from U i have g: "pl_inv (snd (add_pointlist no_rows two_rows))" by blast
  from T i have s: "pl_inv (snd (sort' two_rows ''x'' ''descending''))" by blast
  from T i f have q: "pl_inv (two_rows\<lparr>default_dtype := Struct [(''x'', Int64)],
      data := [[Num 7]], length' := 1\<rparr>)" by blast
  from T i l have e: "pl_inv (snd (remove_points two_rows [True, False]))" by blast
  from T i d have u: "pl_inv (two_rows\<lparr>default_dtype := Struct [(''x'', Int64)]\<rparr>)" by blast
  from i c p a g s f q l e d u show ?thesis by (intro conjI)
qed


subsection \<open>get_subpointlist and copy\<close>

lemma copy_empty: "data t = [] \<Longrightarrow> \<exists>e. copy t = Raised e"
  by (simp add: copy_def PointList_init_def add_pointarray_def split: sum.splits)

text \<open>
  C4, at a table with no rows. \<^verbatim>\<open>get_subpointlist\<close> copies the table before it removes
  rows, \<^verbatim>\<open>copy\<close> passes the rows as \<^verbatim>\<open>data\<close> to the constructor, and the constructor
  hands them to \<^verbatim>\<open>add_pointarray\<close>, which reads \<^verbatim>\<open>pointarray[0]\<close>: on every table
  with no rows, and for every list of constraints, the call raises and returns no table.
\<close>

theorem get_subpointlist_empty_table:
  assumes "data t = []"
  shows "\<exists>e. get_subpointlist t coords_vals = Raised e"
proof (cases "mask_loop t (replicate (length (data t)) False) coords_vals")
  case (Inl e)
  then show ?thesis by (simp add: get_subpointlist_def)
next
  case (Inr deletemask)
  from copy_empty [OF assms] obtain e where "copy t = Raised e" ..
  with Inr show ?thesis by (simp add: get_subpointlist_def)
qed

theorem get_subpointlist_empty_table_witness:
  "data no_rows = [] \<and> PointList_init [Pair ''x'' Int64] None None Float64 = Returned no_rows \<and>
   get_subpointlist no_rows [(''x'', [7])] = Raised IndexError"
proof -
  have a: "data no_rows = []" by (simp add: no_rows_def)
  have b: "PointList_init [Pair ''x'' Int64] None None Float64 = Returned no_rows"
    by (simp add: PointList_init_def make_dtype_def np_dtype_def no_rows_def)
  from get_subpointlist_empty_table [OF a, of "[(''x'', [7])]"]
  obtain e where e: "get_subpointlist no_rows [(''x'', [7])] = Raised e" ..
  have "get_subpointlist no_rows [(''x'', [7])] = Raised IndexError"
    by (simp add: get_subpointlist_def mask_step_def names_def column_def array_or_def
        copy_def PointList_init_def make_dtype_def np_dtype_def add_pointarray_def no_rows_def)
  with a b e show ?thesis by simp
qed

lemma add_points_dtype: "dtype (snd (add_points t ps)) = dtype t"
proof (induction ps arbitrary: t)
  case Nil
  then show ?case by simp
next
  case (Cons p ps)
  obtain r t1 where a: "add_point t p = (r, t1)" by (cases "add_point t p")
  with add_point_dtype [of t p] have "dtype t1 = dtype t" by simp
  with Cons.IH [of t1] a show ?case by (cases r) simp_all
qed

lemma add_pointarray_dtype: "dtype (snd (add_pointarray t ps)) = dtype t"
  by (simp add: add_pointarray_def add_points_dtype split: list.splits)

lemma remove_points_dtype: "dtype (snd (remove_points t m)) = dtype t"
  by (simp add: remove_points_def split: sum.splits)

lemma PointList_init_dtype:
  assumes "PointList_init cs parent d dt = Returned s"
  shows "make_dtype cs dt = Inr (dtype s)"
proof -
  from assms obtain sdt where sdt: "make_dtype cs dt = Inr sdt"
    by (cases "make_dtype cs dt") (simp_all add: PointList_init_def)
  let ?self = "\<lparr>coordinates = cs, parentDataCube = parent, default_dtype = dt,
                 length' = 0, dtype = sdt, data = []\<rparr>"
  show ?thesis
  proof (cases d)
    case None
    with assms sdt show ?thesis by (auto simp: PointList_init_def)
  next
    case (Some pointarray)
    with assms sdt have "add_pointarray ?self pointarray = (Returned (), s)"
      by (auto simp: PointList_init_def split: prod.splits outcome.splits)
    with add_pointarray_dtype [of ?self pointarray] sdt show ?thesis by simp
  qed
qed

lemma field_smaller: "(n, ty) \<in> set fs \<Longrightarrow> size ty < size (Struct fs)"
  by (induction fs) (auto simp: size_prod_simp)

lemma make_dtype_Name:
  assumes "make_dtype (Name n # rest) dt = Inr sdt"
  shows "\<exists>fs. sdt = (n, dt) # fs"
  using assms
  by (auto simp: make_dtype_def np_dtype_def split: option.splits if_splits)

text \<open>
  C7, at a table made from coordinate names. \<^verbatim>\<open>copy\<close> passes \<^verbatim>\<open>dtype=self.dtype\<close>, and
  for coordinates given as strings the constructor gives that type to every field: in
  every table that \<^verbatim>\<open>get_subpointlist\<close> returns for such a table, the first field has
  the whole dtype of the source as its type, and the dtype differs from the source's.
\<close>

theorem get_subpointlist_nests_dtype:
  assumes "coordinates t = Name n # rest" and "get_subpointlist t coords_vals = Returned s"
  shows "(\<exists>fs. dtype s = (n, Struct (dtype t)) # fs) \<and> dtype s \<noteq> dtype t"
proof -
  from assms(2) obtain m c where c: "copy t = Returned c"
    and s: "remove_points c m = (Returned (), s)"
    by (auto simp: get_subpointlist_def split: sum.splits outcome.splits prod.splits)
  from s remove_points_dtype [of c m] have "dtype s = dtype c" by simp
  moreover from c assms(1) have "make_dtype (Name n # rest) (Struct (dtype t)) = Inr (dtype c)"
    by (auto simp: copy_def dest: PointList_init_dtype)
  ultimately obtain fs where fs: "dtype s = (n, Struct (dtype t)) # fs"
    by (auto dest: make_dtype_Name)
  have "dtype s \<noteq> dtype t"
  proof
    assume "dtype s = dtype t"
    with fs have "dtype t = (n, Struct (dtype t)) # fs" by simp
    then have "(n, Struct (dtype t)) \<in> set (dtype t)"
      by (metis list.set_intros(1))
    from field_smaller [OF this] show False by simp
  qed
  with fs show ?thesis by blast
qed

theorem get_subpointlist_nests_dtype_witness:
  "PointList_init [Name ''x''] None (Some [[Num 7]]) Float64 = Returned named_row \<and>
   coordinates named_row = [Name ''x''] \<and>
   get_subpointlist named_row [] =
     Returned
       \<lparr>coordinates = [Name ''x''], parentDataCube = None,
        default_dtype = Struct [(''x'', Float64)], length' = 1,
        dtype = [(''x'', Struct [(''x'', Float64)])], data = [[Rec [Num 7]]]\<rparr> \<and>
   [(''x'', Struct [(''x'', Float64)])] \<noteq> dtype named_row"
proof -
  have a: "PointList_init [Name ''x''] None (Some [[Num 7]]) Float64 = Returned named_row"
    by (simp add: PointList_init_def make_dtype_def np_dtype_def add_pointarray_def
        add_point_def np_array_def named_row_def)
  have b: "coordinates named_row = Name ''x'' # []" by (simp add: named_row_def)
  have c: "get_subpointlist named_row [] =
     Returned
       \<lparr>coordinates = [Name ''x''], parentDataCube = None,
        default_dtype = Struct [(''x'', Float64)], length' = 1,
        dtype = [(''x'', Struct [(''x'', Float64)])], data = [[Rec [Num 7]]]\<rparr>"
    by (simp add: get_subpointlist_def copy_def PointList_init_def make_dtype_def np_dtype_def
        add_pointarray_def add_point_def np_array_def remove_points_def np_delete_def
        nonzero_def named_row_def)
  from get_subpointlist_nests_dtype [OF b c]
  have d: "[(''x'', Struct [(''x'', Float64)])] \<noteq> dtype named_row"
    by (simp add: named_row_def)
  from b have b': "coordinates named_row = [Name ''x'']" .
  from a b' c d show ?thesis by (intro conjI)
qed


subsection \<open>get_subpointlist on tables made from tuples\<close>

lemma index_of_less: "x \<in> set xs \<Longrightarrow> index_of x xs < length xs"
  by (induction xs) auto

lemma make_dtype_tuples:
  assumes "fs \<noteq> []" "distinct (names fs)"
  shows "make_dtype (map (\<lambda>f. Pair (fst f) (snd f)) fs) dt = Inr fs"
proof -
  have "those (map tuple_field (map (\<lambda>f. Pair (fst f) (snd f)) fs)) = Some fs"
    by (induction fs) simp_all
  with assms show ?thesis
    by (cases fs) (simp_all add: make_dtype_def np_dtype_def names_def)
qed

lemma coerce_scalar: "\<not> is_struct ty \<Longrightarrow> coerce ty (Num n) = Some (Num n)"
  by (cases ty) simp_all

lemma those_map_id:
  "(\<And>x. x \<in> set xs \<Longrightarrow> f x = Some (g x)) \<Longrightarrow> those (map f xs) = Some (map g xs)"
  by (induction xs) simp_all

lemma np_array_scalar_row:
  assumes "list_all (\<lambda>f. \<not> is_struct (snd f)) dt" "length r = length dt" "list_all is_num r"
  shows "np_array r dt = Inr r"
proof -
  have "coerce (snd (fst fv)) (snd fv) = Some (snd fv)" if "fv \<in> set (zip dt r)" for fv
  proof -
    from that have "fst fv \<in> set dt" "snd fv \<in> set r"
      by (metis prod.collapse set_zip_leftD, metis prod.collapse set_zip_rightD)
    with assms obtain n where "snd fv = Num n" "\<not> is_struct (snd (fst fv))"
      by (cases "snd fv") (auto simp: list_all_iff)
    then show ?thesis by (simp add: coerce_scalar)
  qed
  then have "those (map (\<lambda>fv. coerce (snd (fst fv)) (snd fv)) (zip dt r)) = Some (map snd (zip dt r))"
    by (rule those_map_id)
  with assms(2) show ?thesis by (simp add: np_array_def)
qed

lemma add_points_scalar_rows:
  assumes "list_all (\<lambda>f. \<not> is_struct (snd f)) (dtype s)"
    "list_all (\<lambda>r. length r = length (dtype s) \<and> list_all is_num r) rows"
  shows "add_points s rows =
     (Returned (), s\<lparr>data := data s @ rows, length' := length' s + int (length rows)\<rparr>)"
  using assms
proof (induction rows arbitrary: s)
  case Nil
  then show ?case by simp
next
  case (Cons r rows)
  let ?s1 = "s\<lparr>data := data s @ [r], length' := length' s + 1\<rparr>"
  from Cons.prems have a: "add_point s r = (Returned (), ?s1)"
    by (simp add: add_point_def np_array_scalar_row)
  from Cons.prems have "add_points ?s1 rows =
     (Returned (), ?s1\<lparr>data := data ?s1 @ rows, length' := length' ?s1 + int (length rows)\<rparr>)"
    by (intro Cons.IH) simp_all
  with a show ?case by simp
qed

lemma copy_tuple_table:
  assumes "tuple_table t" "data t \<noteq> []"
  shows "copy t =
     Returned (t\<lparr>default_dtype := Struct (dtype t), length' := int (length (data t))\<rparr>)"
proof -
  let ?self = "\<lparr>coordinates = coordinates t, parentDataCube = parentDataCube t,
                 default_dtype = Struct (dtype t), length' = 0, dtype = dtype t, data = []\<rparr>"
  from assms(1) have d: "make_dtype (coordinates t) (Struct (dtype t)) = Inr (dtype t)"
    by (simp add: tuple_table_def make_dtype_tuples)
  from assms obtain r rows where rows: "data t = r # rows" by (cases "data t") auto
  with assms(1) have "length r = length (dtype t)" by (simp add: tuple_table_def)
  with rows have "add_pointarray ?self (data t) = add_points ?self (data t)"
    by (simp add: add_pointarray_def)
  also from assms(1) have "\<dots> = (Returned (),
      ?self\<lparr>data := data ?self @ data t, length' := length' ?self + int (length (data t))\<rparr>)"
    by (intro add_points_scalar_rows) (simp_all add: tuple_table_def)
  finally show ?thesis by (simp add: copy_def PointList_init_def d)
qed

lemma mask_step_scalar:
  assumes "list_all (\<lambda>f. \<not> is_struct (snd f)) (dtype t)"
    "list_all (\<lambda>r. length r = length (dtype t) \<and> list_all is_num r) (data t)"
    "fst p \<in> set (names (dtype t))" "length (snd p) = 1 \<or> length (snd p) = 2"
    "length m = length (data t)"
  shows "mask_step t m p =
     Inr (map (\<lambda>(b, r). b \<or> \<not> holds_val (snd p) (r ! index_of (fst p) (names (dtype t))))
            (zip m (data t)))"
proof -
  obtain name vals where p: "p = (name, vals)" by (cases p)
  let ?k = "index_of name (names (dtype t))"
  from assms(3) p have k: "?k < length (dtype t)"
    using index_of_less [of name "names (dtype t)"] by (simp add: names_def)
  with assms(1) have ns: "\<not> is_struct (field_type t name)"
    by (simp add: field_type_def list_all_length)
  have num: "\<exists>n. r ! ?k = Num n" if "r \<in> set (data t)" for r
  proof -
    from that assms(2) have "length r = length (dtype t)" "list_all is_num r"
      by (simp_all add: list_all_iff)
    with k have "is_num (r ! ?k)" by (simp add: list_all_length)
    then show ?thesis by (cases "r ! ?k") simp_all
  qed
  from assms(4) p consider v where "vals = [v]" | lo hi where "vals = [lo, hi]"
    by (cases vals; cases "tl vals"; cases "tl (tl vals)") auto
  then show ?thesis
  proof cases
    case 1
    have "array_or m (map (ne_val v) (column t name)) =
        map (\<lambda>(b, r). b \<or> \<not> holds_val [v] (r ! ?k)) (zip m (data t))"
      unfolding array_or_def column_def zip_map2 map_map
      by (rule map_cong) (auto dest!: set_zip_rightD num)
    with 1 p assms(3) show ?thesis by (simp add: mask_step_def)
  next
    case 2
    have "array_or (array_or m (map (lt_val lo) (column t name))) (map (ge_val hi) (column t name)) =
        map (\<lambda>(b, r). b \<or> \<not> holds_val [lo, hi] (r ! ?k)) (zip m (data t))"
      using assms(5)
      by (intro nth_equalityI)
        (auto simp: array_or_def column_def dest!: num [OF nth_mem])
    with 2 p assms(3) ns show ?thesis by (simp add: mask_step_def)
  qed
qed

lemma mask_loop_scalar:
  assumes "list_all (\<lambda>f. \<not> is_struct (snd f)) (dtype t)"
    "list_all (\<lambda>r. length r = length (dtype t) \<and> list_all is_num r) (data t)"
    "known_fields t preds" "length m = length (data t)"
  shows "mask_loop t m preds =
     Inr (map (\<lambda>(b, r). b \<or> \<not> keeps t preds r) (zip m (data t)))"
  using assms(3,4)
proof (induction preds arbitrary: m)
  case Nil
  then have "map (\<lambda>(b, r). b \<or> \<not> keeps t [] r) (zip m (data t)) = m"
    by (intro nth_equalityI) (simp_all add: keeps_def)
  then show ?case by simp
next
  case (Cons p preds)
  let ?m1 = "map (\<lambda>(b, r). b \<or> \<not> holds_val (snd p) (r ! index_of (fst p) (names (dtype t))))
            (zip m (data t))"
  from Cons.prems have "mask_step t m p = Inr ?m1"
    by (intro mask_step_scalar assms) (simp_all add: known_fields_def)
  moreover from Cons.prems have "mask_loop t ?m1 preds =
     Inr (map (\<lambda>(b, r). b \<or> \<not> keeps t preds r) (zip ?m1 (data t)))"
    by (intro Cons.IH) (simp_all add: known_fields_def)
  moreover from Cons.prems(2)
  have "map (\<lambda>(b, r). b \<or> \<not> keeps t preds r) (zip ?m1 (data t)) =
      map (\<lambda>(b, r). b \<or> \<not> keeps t (p # preds) r) (zip m (data t))"
    by (intro nth_equalityI) (auto simp: keeps_def)
  ultimately show ?case by simp
qed

lemma nths_filter:
  "nths xs {i. \<not> (i < length xs \<and> \<not> P (xs ! i))} = filter P xs"
proof -
  have "nths xs {i. \<not> (i < length xs \<and> \<not> P (xs ! i))} =
      map (\<lambda>i. xs ! i) (filter (\<lambda>i. P (xs ! i)) [0..<length xs])"
    unfolding nths_filter_upt by (intro arg_cong2 [where f = map] filter_cong) auto
  also have "\<dots> = filter P (map (\<lambda>i. xs ! i) [0..<length xs])"
    by (simp add: filter_map comp_def)
  finally show ?thesis by (simp add: map_nth)
qed

text \<open>
  Away from the two defects of \<^verbatim>\<open>copy\<close>, on a table with at least one row that was made
  from (name, dtype) tuples of scalar types, \<^verbatim>\<open>get_subpointlist\<close> returns the rows that
  satisfy every constraint, in their order, with the dtype, the coordinates and the
  parent of the source and with \<^verbatim>\<open>length\<close> counting them; the default type of the new
  table is the dtype of the source.
\<close>

lemma get_subpointlist_tuple_table:
  assumes "tuple_table t" "data t \<noteq> []" "known_fields t preds"
  shows "get_subpointlist t preds =
     Returned (t\<lparr>default_dtype := Struct (dtype t),
                 data := filter (keeps t preds) (data t),
                 length' := int (length (filter (keeps t preds) (data t)))\<rparr>)"
proof -
  let ?m = "map (\<lambda>r. \<not> keeps t preds r) (data t)"
  let ?c = "t\<lparr>default_dtype := Struct (dtype t), length' := int (length (data t))\<rparr>"
  from assms(1,3) have "mask_loop t (replicate (length (data t)) False) preds =
      Inr (map (\<lambda>(b, r). b \<or> \<not> keeps t preds r)
             (zip (replicate (length (data t)) False) (data t)))"
    by (intro mask_loop_scalar) (simp_all add: tuple_table_def)
  also have "map (\<lambda>(b, r). b \<or> \<not> keeps t preds r)
             (zip (replicate (length (data t)) False) (data t)) = ?m"
    by (intro nth_equalityI) simp_all
  finally have m: "mask_loop t (replicate (length (data t)) False) preds = Inr ?m" .
  have c: "copy t = Returned ?c"
    by (rule copy_tuple_table) fact+
  have "nths (data ?c) {i. \<not> (i < length ?m \<and> ?m ! i)} = filter (keeps t preds) (data t)"
    using nths_filter [of "data t" "keeps t preds"]
    by simp
  moreover have "length (filter (\<lambda>b. b) ?m) = length (filter (\<lambda>r. \<not> keeps t preds r) (data t))"
    by (simp add: filter_map comp_def)
  moreover have "int (length (data t)) - int (length (filter (\<lambda>r. \<not> keeps t preds r) (data t)))
      = int (length (filter (keeps t preds) (data t)))"
    using sum_length_filter_compl [of "keeps t preds" "data t"] by simp
  ultimately have "remove_points ?c ?m =
     (Returned (), ?c\<lparr>data := filter (keeps t preds) (data t),
                       length' := int (length (filter (keeps t preds) (data t)))\<rparr>)"
    by (simp add: remove_points_def np_delete_nonzero length_nonzero)
  with m c show ?thesis by (simp add: get_subpointlist_def)
qed

text \<open>The example of the specification: the rows with x = 1.\<close>

lemma get_subpointlist_example:
  "tuple_table three_rows \<and>
   get_subpointlist three_rows [(''x'', [1])] =
     Returned (three_rows\<lparr>default_dtype := Struct (dtype three_rows),
                 data := [[Num 1, Num 2], [Num 1, Num 5]], length' := 2\<rparr>)"
proof -
  have a: "tuple_table three_rows"
    by (simp add: tuple_table_def three_rows_def names_def)
  have b: "data three_rows \<noteq> []" by (simp add: three_rows_def)
  have c: "known_fields three_rows [(''x'', [1])]"
    by (simp add: known_fields_def three_rows_def names_def)
  have d: "filter (keeps three_rows [(''x'', [1])]) (data three_rows)
             = [[Num 1, Num 2], [Num 1, Num 5]]"
    by (simp add: keeps_def three_rows_def names_def)
  from get_subpointlist_tuple_table [OF a b c] a show ?thesis
    unfolding d by simp
qed


end
